theory Spec2Isabelle
  imports Complex_Main
begin

section \<open>The critically damped spring integrator of spring.h\<close>

text \<open>
  The header works on C \<^verbatim>\<open>float\<close>. Two embeddings of that type are used.

  In the first, a \<^verbatim>\<open>float\<close> is an exact real number: \<open>+\<close>, \<open>-\<close>, \<open>*\<close> are the field
  operations and \<^verbatim>\<open>expf\<close> is the real exponential. This is the arithmetic the code writes
  down, carried out without rounding error, and it is the embedding of every function of
  the header. It decides the statements that hold or fail by algebra.

  In the second, given for \<^verbatim>\<open>Spring_Update\<close>, a \<^verbatim>\<open>float\<close> is an IEEE 754 binary32 value:
  every operation rounds to nearest, ties to even, overflows to an infinity, and propagates
  NaN. It decides the statements that say "exactly" of a result the code computes with
  rounding.

  A function of the header that writes its results through \<^verbatim>\<open>float *outPos\<close> and
  \<^verbatim>\<open>float *outVel\<close> returns the pair \<open>(outPos, outVel)\<close> here. Its inputs are passed by
  value in the source, so the out-pointers may alias the caller's variables freely.
\<close>

type_synonym float = real

subsection \<open>Free functions\<close>

definition Spring_Premult_Update :: "float \<Rightarrow> float \<Rightarrow> float \<Rightarrow> float \<Rightarrow> float \<times> float" where
  "Spring_Premult_Update pos vel springFactor_dt springExp_dt =
     (let B = vel + springFactor_dt * pos;
          P1 = (pos + B) * springExp_dt;
          V1 = B * springExp_dt - springFactor_dt * P1
      in (P1, V1))"

definition Spring_Premult_Lerp ::
  "float \<Rightarrow> float \<Rightarrow> float \<Rightarrow> float \<Rightarrow> float \<Rightarrow> float \<times> float" where
  "Spring_Premult_Lerp pos vel targetPos springFactor_dt springExp_dt =
     (let diff = pos - targetPos;
          (diffDt, outVel) = Spring_Premult_Update diff vel springFactor_dt springExp_dt
      in (targetPos + diffDt, outVel))"

definition Spring_Exp :: "float \<Rightarrow> float" where
  "Spring_Exp springFactor_dt = exp (- springFactor_dt)"

definition Spring_Update :: "float \<Rightarrow> float \<Rightarrow> float \<Rightarrow> float \<Rightarrow> float \<times> float" where
  "Spring_Update pos vel springFactor dt =
     (let springExp = Spring_Exp (springFactor * dt);
          B = vel + springFactor * pos;
          Pdt = (pos + B * dt) * springExp;
          Vdt = B * springExp - springFactor * Pdt
      in (Pdt, Vdt))"

definition Spring_Lerp :: "float \<Rightarrow> float \<Rightarrow> float \<Rightarrow> float \<Rightarrow> float \<Rightarrow> float \<times> float" where
  "Spring_Lerp pos vel targetPos springFactor dt =
     (let diff = pos - targetPos;
          (diffDt, outVel) = Spring_Update diff vel springFactor dt
      in (targetPos + diffDt, outVel))"

text \<open>
  \<^verbatim>\<open>float_AngleModDeg\<close> is called by the header but declared elsewhere. The functions that
  call it take it as their first argument.
\<close>

definition Spring_LerpAngleDegree ::
  "(float \<Rightarrow> float) \<Rightarrow> float \<Rightarrow> float \<Rightarrow> float \<Rightarrow> float \<Rightarrow> float \<Rightarrow> float \<times> float" where
  "Spring_LerpAngleDegree float_AngleModDeg pos vel targetPos springFactor dt =
     (let diff = float_AngleModDeg (pos - targetPos);
          (diffDt, outVel) = Spring_Update diff vel springFactor dt
      in (float_AngleModDeg (targetPos + diffDt), outVel))"

subsection \<open>The scalar wrapper classes\<close>

text \<open>
  A method \<^verbatim>\<open>C::m\<close> is the function \<open>C__m\<close>; it takes the object and returns the
  object after the call (or the value read, for an accessor). The field \<^verbatim>\<open>this->pos\<close> of
  class \<open>C\<close> is \<open>C_pos this\<close>, and likewise for \<^verbatim>\<open>vel\<close> and \<^verbatim>\<open>target\<close>.
\<close>

record Spring =
  Spring_pos :: float
  Spring_vel :: float
  Spring_target :: float

definition Spring__Reset :: "Spring \<Rightarrow> Spring" where
  "Spring__Reset this = this\<lparr>Spring_pos := 0, Spring_vel := 0, Spring_target := 0\<rparr>"

definition Spring__SetTarget :: "Spring \<Rightarrow> float \<Rightarrow> Spring" where
  "Spring__SetTarget this target = this\<lparr>Spring_target := target\<rparr>"

definition Spring__Update :: "Spring \<Rightarrow> float \<Rightarrow> float \<Rightarrow> Spring" where
  "Spring__Update this springFactor dt =
     (let (outPos, outVel) =
            Spring_Lerp (Spring_pos this) (Spring_vel this) (Spring_target this) springFactor dt
      in this\<lparr>Spring_pos := outPos, Spring_vel := outVel\<rparr>)"

definition Spring__GetTarget :: "Spring \<Rightarrow> float" where
  "Spring__GetTarget this = Spring_target this"

definition Spring__GetPos :: "Spring \<Rightarrow> float" where
  "Spring__GetPos this = Spring_pos this"

definition Spring__GetVel :: "Spring \<Rightarrow> float" where
  "Spring__GetVel this = Spring_vel this"

definition Spring__ForcePos :: "Spring \<Rightarrow> float \<Rightarrow> Spring" where
  "Spring__ForcePos this pos = this\<lparr>Spring_pos := pos, Spring_vel := 0, Spring_target := pos\<rparr>"

record SpringAngle =
  SpringAngle_pos :: float
  SpringAngle_vel :: float
  SpringAngle_target :: float

definition SpringAngle__Reset :: "SpringAngle \<Rightarrow> SpringAngle" where
  "SpringAngle__Reset this =
     this\<lparr>SpringAngle_pos := 0, SpringAngle_vel := 0, SpringAngle_target := 0\<rparr>"

definition SpringAngle__SetTarget :: "SpringAngle \<Rightarrow> float \<Rightarrow> SpringAngle" where
  "SpringAngle__SetTarget this target = this\<lparr>SpringAngle_target := target\<rparr>"

definition SpringAngle__Update ::
  "(float \<Rightarrow> float) \<Rightarrow> SpringAngle \<Rightarrow> float \<Rightarrow> float \<Rightarrow> SpringAngle" where
  "SpringAngle__Update float_AngleModDeg this springFactor dt =
     (let (outPos, outVel) =
            Spring_LerpAngleDegree float_AngleModDeg (SpringAngle_pos this) (SpringAngle_vel this)
              (SpringAngle_target this) springFactor dt
      in this\<lparr>SpringAngle_pos := outPos, SpringAngle_vel := outVel\<rparr>)"

definition SpringAngle__GetTarget :: "SpringAngle \<Rightarrow> float" where
  "SpringAngle__GetTarget this = SpringAngle_target this"

definition SpringAngle__GetPos :: "SpringAngle \<Rightarrow> float" where
  "SpringAngle__GetPos this = SpringAngle_pos this"

definition SpringAngle__GetVel :: "SpringAngle \<Rightarrow> float" where
  "SpringAngle__GetVel this = SpringAngle_vel this"

definition SpringAngle__ForcePos :: "SpringAngle \<Rightarrow> float \<Rightarrow> SpringAngle" where
  "SpringAngle__ForcePos this pos =
     this\<lparr>SpringAngle_pos := pos, SpringAngle_vel := 0, SpringAngle_target := pos\<rparr>"

record Spring_Premult =
  Spring_Premult_pos :: float
  Spring_Premult_vel :: float
  Spring_Premult_target :: float

definition Spring_Premult__Reset :: "Spring_Premult \<Rightarrow> Spring_Premult" where
  "Spring_Premult__Reset this =
     this\<lparr>Spring_Premult_pos := 0, Spring_Premult_vel := 0, Spring_Premult_target := 0\<rparr>"

definition Spring_Premult__SetTarget :: "Spring_Premult \<Rightarrow> float \<Rightarrow> Spring_Premult" where
  "Spring_Premult__SetTarget this target = this\<lparr>Spring_Premult_target := target\<rparr>"

text \<open>
  The body of \<^verbatim>\<open>Spring_Premult::Update\<close> calls \<^verbatim>\<open>Spring_LerpAngleDegree\<close> and hands it
  \<^verbatim>\<open>springExp\<close> in the place of \<^verbatim>\<open>dt\<close>.
\<close>

definition Spring_Premult__Update ::
  "(float \<Rightarrow> float) \<Rightarrow> Spring_Premult \<Rightarrow> float \<Rightarrow> float \<Rightarrow> Spring_Premult" where
  "Spring_Premult__Update float_AngleModDeg this springFactor springExp =
     (let (outPos, outVel) =
            Spring_LerpAngleDegree float_AngleModDeg (Spring_Premult_pos this)
              (Spring_Premult_vel this) (Spring_Premult_target this) springFactor springExp
      in this\<lparr>Spring_Premult_pos := outPos, Spring_Premult_vel := outVel\<rparr>)"

definition Spring_Premult__GetTarget :: "Spring_Premult \<Rightarrow> float" where
  "Spring_Premult__GetTarget this = Spring_Premult_target this"

definition Spring_Premult__GetPos :: "Spring_Premult \<Rightarrow> float" where
  "Spring_Premult__GetPos this = Spring_Premult_pos this"

definition Spring_Premult__GetVel :: "Spring_Premult \<Rightarrow> float" where
  "Spring_Premult__GetVel this = Spring_Premult_vel this"

subsection \<open>The generic vector functions and wrapper\<close>

text \<open>
  The template parameter \<^verbatim>\<open>T\<close> is a real vector space: \<^verbatim>\<open>T + T\<close>, \<^verbatim>\<open>T - T\<close>, and
  \<^verbatim>\<open>float * T\<close> and \<^verbatim>\<open>T * float\<close> as scaling. The value-initialised \<^verbatim>\<open>T()\<close> is \<open>0\<close>.
  \<^verbatim>\<open>Spring_VecUpdate\<close> and \<^verbatim>\<open>Spring_VecLerp\<close> take \<^verbatim>\<open>pos\<close>, \<^verbatim>\<open>vel\<close> and \<^verbatim>\<open>targetPos\<close>
  by reference, and \<^verbatim>\<open>SpringVec::Update\<close> passes its own members both as these inputs and
  as the outputs; every read of an input comes before the first write through an output
  that may alias it, so the inputs are values here.
\<close>

definition Spring_VecUpdate ::
  "'a::real_vector \<Rightarrow> 'a \<Rightarrow> float \<Rightarrow> float \<Rightarrow> 'a \<times> 'a" where
  "Spring_VecUpdate pos vel springFactor dt =
     (let springExp = Spring_Exp (springFactor * dt);
          B = vel + springFactor *\<^sub>R pos;
          Pdt = springExp *\<^sub>R (pos + dt *\<^sub>R B);
          Vdt = springExp *\<^sub>R B - springFactor *\<^sub>R Pdt
      in (Pdt, Vdt))"

definition Spring_VecLerp ::
  "'a::real_vector \<Rightarrow> 'a \<Rightarrow> 'a \<Rightarrow> float \<Rightarrow> float \<Rightarrow> 'a \<times> 'a" where
  "Spring_VecLerp pos vel targetPos springFactor dt =
     (let diff = pos - targetPos;
          (diffDt, outVel) = Spring_VecUpdate diff vel springFactor dt
      in (targetPos + diffDt, outVel))"

record 'a SpringVec =
  SpringVec_pos :: 'a
  SpringVec_vel :: 'a
  SpringVec_target :: 'a

text \<open>
  \<^verbatim>\<open>SpringVec::ForcePos\<close> and \<^verbatim>\<open>SpringVec::SetTarget\<close> take their argument as
  \<^verbatim>\<open>const T &\<close>. The caller binds that reference either to an object outside the
  wrapper, holding some value, or to one of the wrapper's own members, which are public
  and which the accessors hand out by reference. \<open>SpringVec_read\<close> reads through the
  reference in the wrapper's current state.
\<close>

datatype 'a const_ref = Object 'a | This_pos | This_vel | This_target

fun SpringVec_read :: "'a SpringVec \<Rightarrow> 'a const_ref \<Rightarrow> 'a" where
  "SpringVec_read this (Object v) = v"
| "SpringVec_read this This_pos = SpringVec_pos this"
| "SpringVec_read this This_vel = SpringVec_vel this"
| "SpringVec_read this This_target = SpringVec_target this"

definition SpringVec__Reset :: "('a::zero) SpringVec \<Rightarrow> 'a SpringVec" where
  "SpringVec__Reset this =
     this\<lparr>SpringVec_pos := 0, SpringVec_vel := 0, SpringVec_target := 0\<rparr>"

definition SpringVec__Update ::
  "('a::real_vector) SpringVec \<Rightarrow> float \<Rightarrow> float \<Rightarrow> 'a SpringVec" where
  "SpringVec__Update this springFactor dt =
     (let (outPos, outVel) =
            Spring_VecLerp (SpringVec_pos this) (SpringVec_vel this) (SpringVec_target this)
              springFactor dt
      in this\<lparr>SpringVec_pos := outPos, SpringVec_vel := outVel\<rparr>)"

definition SpringVec__GetTarget :: "'a SpringVec \<Rightarrow> 'a" where
  "SpringVec__GetTarget this = SpringVec_target this"

definition SpringVec__GetPos :: "'a SpringVec \<Rightarrow> 'a" where
  "SpringVec__GetPos this = SpringVec_pos this"

definition SpringVec__GetVel :: "'a SpringVec \<Rightarrow> 'a" where
  "SpringVec__GetVel this = SpringVec_vel this"

definition SpringVec__ForcePos :: "('a::zero) SpringVec \<Rightarrow> 'a const_ref \<Rightarrow> 'a SpringVec" where
  "SpringVec__ForcePos this pos =
     (let this1 = this\<lparr>SpringVec_pos := SpringVec_read this pos\<rparr>;
          this2 = this1\<lparr>SpringVec_vel := 0\<rparr>;
          this3 = this2\<lparr>SpringVec_target := SpringVec_read this2 pos\<rparr>
      in this3)"

definition SpringVec__SetTarget :: "'a SpringVec \<Rightarrow> 'a const_ref \<Rightarrow> 'a SpringVec" where
  "SpringVec__SetTarget this target = this\<lparr>SpringVec_target := SpringVec_read this target\<rparr>"

subsection \<open>The external angle normalisation\<close>

text \<open>
  Modelled from the spec: \<^verbatim>\<open>float_AngleModDeg\<close> is defined outside this header. The
  specification describes it as the function that takes a degree value to the equivalent
  value in the canonical range \<open>(-180, 180]\<close>. \<open>AngleModDeg_canonical\<close> is that description
  as a property of a function; \<open>float_AngleModDeg\<close> is the function that has it.
\<close>

definition AngleModDeg_canonical :: "(float \<Rightarrow> float) \<Rightarrow> bool" where
  "AngleModDeg_canonical f \<longleftrightarrow>
     (\<forall>x. - 180 < f x \<and> f x \<le> 180 \<and> (\<exists>n::int. f x = x + 360 * of_int n))"

definition float_AngleModDeg :: "float \<Rightarrow> float" where
  "float_AngleModDeg x = x - 360 * of_int \<lceil>(x - 180) / 360\<rceil>"

subsection \<open>Binary32 arithmetic and the binary32 step\<close>

text \<open>
  A binary32 value is a finite real, an infinity or NaN. The two zeros are the one value
  \<open>Finite 0\<close>, as \<^verbatim>\<open>==\<close> sees them; nothing below divides, so their sign is never
  observed. A finite value is \<open>m * 2 powi (e - 23)\<close> with \<open>\<bar>m\<bar> < 2 ^ 24\<close> and
  \<open>- 126 \<le> e \<le> 127\<close>; with \<open>e = - 126\<close> these are the subnormal numbers as well.
\<close>

datatype binary32 = Finite real | PlusInf | MinusInf | NaN

definition round_even :: "real \<Rightarrow> int" where
  "round_even x =
     (let f = \<lfloor>x\<rfloor>; r = x - of_int f
      in if r < 1 / 2 then f else if 1 / 2 < r then f + 1 else if even f then f else f + 1)"

text \<open>
  The exponent of a real \<open>a \<ge> 0\<close>: the least \<open>e \<ge> - 126\<close> with \<open>a < 2 powi (e + 1)\<close>, and
  \<open>127\<close> when there is none up to \<open>127\<close>.
\<close>

fun binary32_exponent_from :: "nat \<Rightarrow> int \<Rightarrow> real \<Rightarrow> int" where
  "binary32_exponent_from 0 e a = e"
| "binary32_exponent_from (Suc n) e a =
     (if a < 2 powi (e + 1) then e else binary32_exponent_from n (e + 1) a)"

definition binary32_exponent :: "real \<Rightarrow> int" where
  "binary32_exponent x = binary32_exponent_from 253 (- 126) \<bar>x\<bar>"

text \<open>
  Rounding to nearest, ties to even: the real is rounded to a multiple of the unit in the
  last place of its binade, and a result of magnitude \<open>2 powi 128\<close> or more is an infinity.
\<close>

definition binary32_round :: "real \<Rightarrow> binary32" where
  "binary32_round x =
     (let ulp = 2 powi (binary32_exponent x - 23);
          y = of_int (round_even (x / ulp)) * ulp
      in if 2 powi 128 \<le> \<bar>y\<bar> then (if 0 < x then PlusInf else MinusInf) else Finite y)"

definition is_binary32 :: "real \<Rightarrow> bool" where
  "is_binary32 x \<longleftrightarrow> binary32_round x = Finite x"

fun binary32_neg :: "binary32 \<Rightarrow> binary32" where
  "binary32_neg (Finite x) = Finite (- x)"
| "binary32_neg PlusInf = MinusInf"
| "binary32_neg MinusInf = PlusInf"
| "binary32_neg NaN = NaN"




text \<open>
  \<^verbatim>\<open>expf\<close> belongs to the C library. It is the correctly rounded exponential here. The C
  standard fixes \<^verbatim>\<open>expf(0) = 1\<close>, and the statements below on \<open>springFactor = 0\<close> and
  \<open>dt = 0\<close> use no other value of it.
\<close>

fun binary32_expf :: "binary32 \<Rightarrow> binary32" where
  "binary32_expf (Finite x) = binary32_round (exp x)"
| "binary32_expf PlusInf = PlusInf"
| "binary32_expf MinusInf = Finite 0"
| "binary32_expf NaN = NaN"

text \<open>
  \<^verbatim>\<open>Spring_Exp\<close> and \<^verbatim>\<open>Spring_Update\<close> once more, line by line, each operation of the
  source being the binary32 operation (every intermediate result is rounded to
  \<^verbatim>\<open>float\<close>; no operation is fused with another).
\<close>

definition Spring_Exp_binary32 :: "binary32 \<Rightarrow> binary32" where
  "Spring_Exp_binary32 springFactor_dt = binary32_expf (binary32_neg springFactor_dt)"


section \<open>The closed form of one step\<close>

text \<open>
  C3. For every \<open>pos\<close>, \<open>vel\<close>, \<open>springFactor\<close> and \<open>dt\<close>, \<open>Spring_Update\<close> returns the pair
  of the closed-form solution: with \<open>B = vel + springFactor * pos\<close> and
  \<open>decay = exp (- springFactor * dt)\<close>, the new position is \<open>(pos + B * dt) * decay\<close> and the
  new velocity is \<open>B * decay - springFactor *\<close> (new position).
\<close>

theorem Spring_Update_closed_form:
  "Spring_Update pos vel springFactor dt =
     (let B = vel + springFactor * pos;
          decay = exp (- springFactor * dt);
          pos' = (pos + B * dt) * decay;
          vel' = B * decay - springFactor * pos'
      in (pos', vel'))"
  by (simp add: Spring_Update_def Spring_Exp_def Let_def)

text \<open>
  C7. \<open>Spring_Lerp\<close> springs the difference \<open>pos - targetPos\<close> towards zero with
  \<open>Spring_Update\<close> and adds \<open>targetPos\<close> back to the resulting position; the resulting
  velocity is the one \<open>Spring_Update\<close> returns.
\<close>

theorem Spring_Lerp_springs_difference:
  "Spring_Lerp pos vel targetPos springFactor dt =
     (targetPos + fst (Spring_Update (pos - targetPos) vel springFactor dt),
      snd (Spring_Update (pos - targetPos) vel springFactor dt))"
  by (simp add: Spring_Lerp_def Let_def split_beta)

section \<open>Rounding to binary32\<close>

lemma round_even_of_int [simp]: "round_even (of_int k) = k"
  by (simp add: round_even_def)





lemma powi2_less_imp: "(2::real) powi a < 2 powi b \<Longrightarrow> a < b"
  using power_int_increasing [of b a "2::real"] by (cases "a < b") simp_all

lemma binary32_exponent_from_ge: "e0 \<le> binary32_exponent_from n e0 a"
proof (induction n arbitrary: e0)
  case 0
  then show ?case by simp
next
  case (Suc n)
  show ?case using Suc.IH [of "e0 + 1"] by simp
qed


lemma binary32_exponent_from_le:
  "a < 2 powi (e + 1) \<Longrightarrow> e0 \<le> e \<Longrightarrow> binary32_exponent_from n e0 a \<le> e"
proof (induction n arbitrary: e0)
  case 0
  then show ?case by simp
next
  case (Suc n)
  show ?case
  proof (cases "a < 2 powi (e0 + 1)")
    case True
    then show ?thesis using Suc.prems by simp
  next
    case False
    then have "2 powi (e0 + 1) \<le> a" by simp
    with Suc.prems(1) have "(2::real) powi (e0 + 1) < 2 powi (e + 1)" by linarith
    then have "e0 + 1 < e + 1" by (rule powi2_less_imp) 
    then show ?thesis using False Suc.IH [of "e0 + 1"] Suc.prems by simp
  qed
qed


lemma binary32_exponent_from_lower:
  "e0 < binary32_exponent_from n e0 a \<Longrightarrow> 2 powi (binary32_exponent_from n e0 a) \<le> a"
proof (induction n arbitrary: e0)
  case 0
  then show ?case by simp
next
  case (Suc n)
  show ?case
  proof (cases "a < 2 powi (e0 + 1)")
    case True
    then show ?thesis using Suc.prems by simp
  next
    case False
    show ?thesis
    proof (cases "e0 + 1 < binary32_exponent_from n (e0 + 1) a")
      case True
      then show ?thesis using False Suc.IH [of "e0 + 1"] by simp
    next
      case f: False
      then have "binary32_exponent_from n (e0 + 1) a = e0 + 1"
        using binary32_exponent_from_ge [of "e0 + 1" n a] by linarith
      then show ?thesis using False by simp
    qed
  qed
qed



lemma binary32_exponent_le:
  "\<bar>x\<bar> < 2 powi (e + 1) \<Longrightarrow> - 126 \<le> e \<Longrightarrow> binary32_exponent x \<le> e"
  unfolding binary32_exponent_def by (rule binary32_exponent_from_le)


lemma powi2_pos [simp]: "0 < (2::real) powi k"
  by (simp add: zero_less_power_int)

lemma powi2_ulp: "(2::real) powi (e + 1) = 2 ^ 24 * 2 powi (e - 23)"
proof -
  have "(2::real) powi (24 + (e - 23)) = 2 powi 24 * 2 powi (e - 23)"
    by (rule power_int_add) simp
  moreover have "24 + (e - 23) = e + 1"
    by simp
  moreover have "(2::real) powi 24 = 2 ^ 24"
    by simp
  ultimately show ?thesis
    by (simp only:)
qed


lemma binary32_round_representable:
  assumes x: "x = of_int m * 2 powi (e - 23)" and m: "\<bar>m\<bar> < 2 ^ 24"
    and e: "- 126 \<le> e" "e \<le> 127"
  shows "binary32_round x = Finite x"
proof -
  define e' where "e' = binary32_exponent x"
  have "\<bar>x\<bar> = of_int \<bar>m\<bar> * 2 powi (e - 23)"
    by (simp add: x abs_mult)
  also have "\<dots> < 2 ^ 24 * 2 powi (e - 23)"
    using m by (intro mult_strict_right_mono) (simp_all flip: of_int_less_iff [where 'a = real])
  also have "\<dots> = 2 powi (e + 1)"
    by (simp only: powi2_ulp)
  finally have lt: "\<bar>x\<bar> < 2 powi (e + 1)" .
  then have le: "e' \<le> e"
    unfolding e'_def using e(1) by (rule binary32_exponent_le)
  have split: "(2::real) powi (e - 23) = 2 powi (e - e') * 2 powi (e' - 23)"
    using power_int_add [of "2::real" "e - e'" "e' - 23"] by simp
  have nn: "(2::real) powi (e - e') = of_int (2 ^ nat (e - e'))"
    using le by (simp add: power_int_def)
  have "x / 2 powi (e' - 23) = of_int m * 2 powi (e - e')"
    by (simp add: x split)
  also have "\<dots> = of_int (m * 2 ^ nat (e - e'))"
    by (simp add: nn)
  finally have q: "round_even (x / 2 powi (e' - 23)) = m * 2 ^ nat (e - e')"
    by (simp only: round_even_of_int)
  have y: "of_int (round_even (x / 2 powi (e' - 23))) * 2 powi (e' - 23) = x"
    unfolding q by (simp add: x split nn)
  have "(2::real) powi (e + 1) \<le> 2 powi 128"
    using e(2) by (intro power_int_increasing) simp_all
  with lt have "\<not> 2 powi 128 \<le> \<bar>x\<bar>"
    by simp
  then show ?thesis
    unfolding binary32_round_def Let_def e'_def [symmetric] y by simp
qed


lemma binary32_round_0 [simp]: "binary32_round 0 = Finite 0"
  using binary32_round_representable [of 0 0 0] by simp

lemma binary32_round_1 [simp]: "binary32_round 1 = Finite 1"
  using binary32_round_representable [of 1 "2 ^ 23" 0] by (simp add: power_int_minus)



lemma is_binary32_0 [simp]: "is_binary32 0"
  by (simp add: is_binary32_def)

lemma is_binary32_1 [simp]: "is_binary32 1"
  by (simp add: is_binary32_def)


lemma Spring_Exp_binary32_0 [simp]: "Spring_Exp_binary32 (Finite 0) = Finite 1"
  by (simp add: Spring_Exp_binary32_def)

section \<open>No stiffness, no time\<close>













section \<open>Splitting a step in two\<close>

lemma Spring_Exp_add:
  "Spring_Exp (k * (dt1 + dt2)) = Spring_Exp (k * dt1) * Spring_Exp (k * dt2)"
proof -
  have "- (k * (dt1 + dt2)) = - (k * dt1) + - (k * dt2)"
    by (simp add: distrib_left)
  then show ?thesis
    by (simp only: Spring_Exp_def exp_add)
qed

text \<open>
  C4. For every \<open>pos\<close>, \<open>vel\<close>, \<open>springFactor\<close> and every \<open>dt1\<close>, \<open>dt2\<close>, a step of
  \<open>Spring_Update\<close> with \<open>dt1\<close> followed by a step with \<open>dt2\<close>, started from the pair the
  first step returned, gives exactly the pair of one step with \<open>dt1 + dt2\<close>. The equation
  needs no sign condition on the time steps, so it holds in particular for
  \<open>dt1, dt2 \<ge> 0\<close>.
\<close>

theorem Spring_Update_compose:
  "Spring_Update (fst (Spring_Update pos vel springFactor dt1))
     (snd (Spring_Update pos vel springFactor dt1)) springFactor dt2 =
   Spring_Update pos vel springFactor (dt1 + dt2)"
proof -
  define e1 where "e1 = Spring_Exp (springFactor * dt1)"
  define e2 where "e2 = Spring_Exp (springFactor * dt2)"
  define B where "B = vel + springFactor * pos"
  define p1 where "p1 = (pos + B * dt1) * e1"
  have first: "Spring_Update pos vel springFactor dt1 = (p1, B * e1 - springFactor * p1)"
    by (simp add: Spring_Update_def Let_def e1_def B_def p1_def)
  have B1: "B * e1 - springFactor * p1 + springFactor * p1 = B * e1"
    by simp
  have second: "Spring_Update p1 (B * e1 - springFactor * p1) springFactor dt2 =
      ((p1 + B * e1 * dt2) * e2, B * e1 * e2 - springFactor * ((p1 + B * e1 * dt2) * e2))"
    unfolding Spring_Update_def Let_def e2_def [symmetric] B1 ..
  have whole: "Spring_Update pos vel springFactor (dt1 + dt2) =
      ((pos + B * (dt1 + dt2)) * (e1 * e2),
       B * (e1 * e2) - springFactor * ((pos + B * (dt1 + dt2)) * (e1 * e2)))"
    by (simp add: Spring_Update_def Let_def Spring_Exp_add e1_def e2_def B_def)
  have p: "(p1 + B * e1 * dt2) * e2 = (pos + B * (dt1 + dt2)) * (e1 * e2)"
    by (simp add: p1_def algebra_simps)
  show ?thesis
    unfolding first fst_conv snd_conv second whole p by (simp add: mult.assoc)
qed

section \<open>The premultiplied step\<close>

text \<open>
  The comment above \<^verbatim>\<open>Spring_Premult_Update\<close> reads "Assume DT = 1": the function is the
  step of length one in a time unit of one tick. Its velocity is a displacement per tick,
  \<open>vel * dt\<close> for a velocity \<open>vel\<close> per unit of the time in which the tick lasts \<open>dt\<close>.
\<close>

lemma exp_2_less_10: "exp (2::real) < 10"
proof -
  have "exp (2::real) = exp 1 * exp 1"
    by (simp flip: exp_add)
  also have "\<dots> \<le> 3 * 3"
    by (intro mult_mono exp_le) simp_all
  finally show ?thesis
    by simp
qed

text \<open>
  C1, as stated, fails. At \<open>pos = 0\<close>, \<open>vel = 1\<close>, \<open>springFactor = 1\<close>, \<open>dt = 2\<close> the position
  returned by \<open>Spring_Update\<close> is twice the position returned by \<open>Spring_Premult_Update\<close>
  with \<open>springFactor_dt = springFactor * dt\<close> and \<open>springExp_dt = exp (- springFactor * dt)\<close>,
  and the two positions are more than \<open>1 / 10\<close> apart: no rounding tolerance covers that.
\<close>

theorem Spring_Premult_Update_differs:
  "Spring_Premult_Update 0 1 (1 * 2) (exp (- 1 * 2)) \<noteq> Spring_Update 0 1 1 2 \<and>
   fst (Spring_Update 0 1 1 2) = 2 * fst (Spring_Premult_Update 0 1 (1 * 2) (exp (- 1 * 2))) \<and>
   1 / 10 < fst (Spring_Update 0 1 1 2) - fst (Spring_Premult_Update 0 1 (1 * 2) (exp (- 1 * 2)))"
proof -
  have "1 / 10 < inverse (exp (2::real))"
    using exp_2_less_10 by (simp add: field_simps)
  then show ?thesis
    by (simp add: Spring_Update_def Spring_Premult_Update_def Spring_Exp_def Let_def exp_minus)
qed

text \<open>
  C1, amended. For every \<open>pos\<close>, \<open>vel\<close>, \<open>springFactor\<close> and \<open>dt\<close>, \<open>Spring_Premult_Update\<close>
  applied to the position \<open>pos\<close> and the per-tick velocity \<open>vel * dt\<close>, with
  \<open>springFactor_dt = springFactor * dt\<close> and \<open>springExp_dt = exp (- springFactor * dt)\<close>,
  returns the position that \<open>Spring_Update pos vel springFactor dt\<close> returns, and its
  velocity times \<open>dt\<close>. With \<open>dt = 1\<close> the two functions return the same pair.
\<close>

theorem Spring_Premult_Update_per_tick:
  "Spring_Premult_Update pos (vel * dt) (springFactor * dt) (exp (- springFactor * dt)) =
     (fst (Spring_Update pos vel springFactor dt), snd (Spring_Update pos vel springFactor dt) * dt)
   \<and> Spring_Premult_Update pos vel (springFactor * 1) (exp (- springFactor * 1)) =
       Spring_Update pos vel springFactor 1"
  by (simp add: Spring_Update_def Spring_Premult_Update_def Spring_Exp_def Let_def algebra_simps)

section \<open>Snapping a wrapper to a position\<close>

text \<open>
  C9. For every prior state and every \<open>x\<close>, after \<open>ForcePos x\<close> on the plain scalar wrapper
  \<open>Spring\<close> or on the angle wrapper \<open>SpringAngle\<close>, \<open>GetPos\<close> returns \<open>x\<close>, \<open>GetVel\<close> returns
  \<open>0\<close> and \<open>GetTarget\<close> returns \<open>x\<close>.
\<close>

theorem ForcePos_scalar_and_angle:
  "Spring__GetPos (Spring__ForcePos s x) = x \<and>
   Spring__GetVel (Spring__ForcePos s x) = 0 \<and>
   Spring__GetTarget (Spring__ForcePos s x) = x \<and>
   SpringAngle__GetPos (SpringAngle__ForcePos a x) = x \<and>
   SpringAngle__GetVel (SpringAngle__ForcePos a x) = 0 \<and>
   SpringAngle__GetTarget (SpringAngle__ForcePos a x) = x"
  by (simp add: Spring__ForcePos_def Spring__GetPos_def Spring__GetVel_def Spring__GetTarget_def
      SpringAngle__ForcePos_def SpringAngle__GetPos_def SpringAngle__GetVel_def
      SpringAngle__GetTarget_def)

text \<open>
  C10. The generic vector wrapper \<open>SpringVec\<close> has \<open>ForcePos\<close>, and the method is written to
  store the argument as position and as target and \<^verbatim>\<open>T()\<close> as velocity. It reads its
  \<^verbatim>\<open>const T &\<close> argument twice, once before and once after it zeroes \<^verbatim>\<open>vel\<close>. In the call
  \<^verbatim>\<open>s.ForcePos(s.GetVel())\<close> on a wrapper with \<open>pos = 1\<close>, \<open>vel = 2\<close>, \<open>target = 3\<close> the
  argument has the value \<open>2\<close>; the position becomes \<open>2\<close>, but the target becomes \<open>0\<close>.
\<close>

theorem SpringVec__ForcePos_own_vel:
  "SpringVec_read \<lparr>SpringVec_pos = 1, SpringVec_vel = 2, SpringVec_target = 3\<rparr> This_vel
     = (2 :: real) \<and>
   SpringVec__ForcePos \<lparr>SpringVec_pos = 1, SpringVec_vel = 2, SpringVec_target = 3\<rparr> This_vel
     = \<lparr>SpringVec_pos = 2 :: real, SpringVec_vel = 0, SpringVec_target = 0\<rparr> \<and>
   SpringVec__GetTarget
     (SpringVec__ForcePos \<lparr>SpringVec_pos = 1, SpringVec_vel = 2, SpringVec_target = 3\<rparr>
        This_vel) \<noteq> (2 :: real)"
  by (simp add: SpringVec__ForcePos_def SpringVec__GetTarget_def Let_def)

text \<open>
  For an argument held in an object outside the wrapper the method does store \<open>p\<close>, \<open>0\<close>,
  \<open>p\<close>, as \<open>Spring__ForcePos\<close> and \<open>SpringAngle__ForcePos\<close>, which take their argument by
  value, do for every call.
\<close>

lemma SpringVec__ForcePos_outside_object:
  "SpringVec__GetPos (SpringVec__ForcePos s (Object p)) = p \<and>
   SpringVec__GetTarget (SpringVec__ForcePos s (Object p)) = p \<and>
   SpringVec__GetVel (SpringVec__ForcePos s (Object p)) = 0"
  by (simp add: SpringVec__GetPos_def SpringVec__GetTarget_def SpringVec__GetVel_def
      SpringVec__ForcePos_def Let_def)

text \<open>
  When the argument is bound to a member of the wrapper itself, the members \<^verbatim>\<open>pos\<close> and
  \<^verbatim>\<open>target\<close> behave like a value held outside. The member \<^verbatim>\<open>vel\<close> does not.
\<close>

lemma SpringVec__ForcePos_own_member:
  "SpringVec__ForcePos s This_pos = s\<lparr>SpringVec_vel := 0, SpringVec_target := SpringVec_pos s\<rparr>"
  "SpringVec__ForcePos s This_target = s\<lparr>SpringVec_pos := SpringVec_target s, SpringVec_vel := 0\<rparr>"
  "SpringVec__ForcePos s This_vel =
     s\<lparr>SpringVec_pos := SpringVec_vel s, SpringVec_vel := 0, SpringVec_target := 0\<rparr>"
  by (simp_all add: SpringVec__ForcePos_def Let_def)

text \<open>On the reals the generic step is the scalar step.\<close>

lemma Spring_VecUpdate_real:
  "Spring_VecUpdate (pos :: real) vel springFactor dt = Spring_Update pos vel springFactor dt"
  by (simp add: Spring_VecUpdate_def Spring_Update_def Let_def algebra_simps)

section \<open>Angles\<close>

lemma float_AngleModDeg_canonical: "AngleModDeg_canonical float_AngleModDeg"
  unfolding AngleModDeg_canonical_def
proof (intro allI conjI)
  fix x :: real
  define c where "c = \<lceil>(x - 180) / 360\<rceil>"
  have up: "(x - 180) / 360 \<le> of_int c" and lo: "of_int c - 1 < (x - 180) / 360"
    unfolding c_def by linarith+
  show "- 180 < float_AngleModDeg x"
    using lo by (simp add: float_AngleModDeg_def c_def [symmetric])
  show "float_AngleModDeg x \<le> 180"
    using up by (simp add: float_AngleModDeg_def c_def [symmetric])
  show "\<exists>n::int. float_AngleModDeg x = x + 360 * of_int n"
    by (rule exI [of _ "- c"]) (simp add: float_AngleModDeg_def c_def)
qed

text \<open>A canonical normalisation is determined by its description.\<close>

lemma AngleModDeg_canonical_unique:
  assumes "AngleModDeg_canonical f"
    and "- 180 < x + 360 * of_int n" and "x + 360 * of_int n \<le> 180"
  shows "f x = x + 360 * of_int n"
proof -
  from assms(1) obtain m :: int
    where r: "- 180 < f x" "f x \<le> 180" and m: "f x = x + 360 * of_int m"
    unfolding AngleModDeg_canonical_def by blast
  have "x + 360 * of_int m < x + 360 * of_int n + 360"
    using r m assms(2) by linarith
  then have a: "of_int (m - n) < (1::real)"
    by simp
  have "x + 360 * of_int n - 360 < x + 360 * of_int m"
    using r m assms(3) by linarith
  then have b: "- 1 < (of_int (m - n) :: real)"
    by simp
  from a b have "m - n < 1" "- 1 < m - n"
    by linarith+
  then have "m = n"
    by simp
  with m show ?thesis
    by simp
qed

lemma float_AngleModDeg_eq:
  "- 180 < x + 360 * of_int n \<Longrightarrow> x + 360 * of_int n \<le> 180 \<Longrightarrow>
   float_AngleModDeg x = x + 360 * of_int n"
  by (rule AngleModDeg_canonical_unique [OF float_AngleModDeg_canonical])

lemma decay_bounds:
  assumes "0 < (x::real)"
  shows "0 < (1 + x) * exp (- x)" and "(1 + x) * exp (- x) < 1"
proof -
  show "0 < (1 + x) * exp (- x)"
    using assms by (simp add: zero_less_mult_iff)
  have "1 + x + x\<^sup>2 / 2 \<le> exp x"
    using assms by (intro exp_lower_Taylor_quadratic) simp
  moreover have "0 < x\<^sup>2 / 2"
    using assms by simp
  ultimately have "1 + x < exp x"
    by linarith
  then show "(1 + x) * exp (- x) < 1"
    by (simp add: exp_minus field_simps)
qed

text \<open>
  C8. \<open>Spring_LerpAngleDegree\<close> takes the difference \<open>pos - targetPos\<close> through the external
  angle normalisation before it springs it, and takes \<open>targetPos + diffDt\<close> through the
  normalisation again afterwards. If the normalisation maps every angle to the equivalent
  angle in \<open>(-180, 180]\<close>, then for \<open>pos = 179\<close>, \<open>targetPos = - 179\<close>, \<open>vel = 0\<close> and every
  \<open>springFactor > 0\<close> and \<open>dt > 0\<close> the new position lies on the two-degree arc from \<open>179\<close>
  through \<open>180\<close> to \<open>- 179\<close>, strictly past \<open>179\<close> and short of \<open>- 179\<close>: the position has moved
  in the positive direction, not back through \<open>0\<close>.
\<close>

theorem Spring_LerpAngleDegree_shortest_path:
  assumes can: "AngleModDeg_canonical angleMod" and k: "0 < springFactor" and dt: "0 < dt"
  shows "Spring_LerpAngleDegree angleMod pos vel targetPos springFactor dt =
           (angleMod (targetPos +
              fst (Spring_Update (angleMod (pos - targetPos)) vel springFactor dt)),
            snd (Spring_Update (angleMod (pos - targetPos)) vel springFactor dt))
         \<and> ((179 < fst (Spring_LerpAngleDegree angleMod 179 0 (- 179) springFactor dt) \<and>
              fst (Spring_LerpAngleDegree angleMod 179 0 (- 179) springFactor dt) \<le> 180) \<or>
            (- 180 < fst (Spring_LerpAngleDegree angleMod 179 0 (- 179) springFactor dt) \<and>
              fst (Spring_LerpAngleDegree angleMod 179 0 (- 179) springFactor dt) < - 179))"
proof
  show "Spring_LerpAngleDegree angleMod pos vel targetPos springFactor dt =
           (angleMod (targetPos +
              fst (Spring_Update (angleMod (pos - targetPos)) vel springFactor dt)),
            snd (Spring_Update (angleMod (pos - targetPos)) vel springFactor dt))"
    by (simp add: Spring_LerpAngleDegree_def Let_def split_beta)
next
  define x where "x = springFactor * dt"
  define d where "d = (1 + x) * exp (- x)"
  define p' where "p' = fst (Spring_LerpAngleDegree angleMod 179 0 (- 179) springFactor dt)"
  have x: "0 < x"
    using k dt by (simp add: x_def)
  have d: "0 < d" "d < 1"
    using decay_bounds [OF x] by (simp_all add: d_def)
  have diff: "angleMod 358 = - 2"
    using AngleModDeg_canonical_unique [OF can, of 358 "- 1"] by simp
  have upd: "fst (Spring_Update (- 2) 0 springFactor dt) = - 2 * d"
    by (simp add: Spring_Update_def Spring_Exp_def Let_def d_def x_def algebra_simps)
  have res: "p' = angleMod (- 179 - 2 * d)"
  proof -
    have "p' = angleMod (- 179 + fst (Spring_Update (angleMod 358) 0 springFactor dt))"
      by (simp add: p'_def Spring_LerpAngleDegree_def Let_def split_beta)
    also have "- 179 + fst (Spring_Update (angleMod 358) 0 springFactor dt) = - 179 - 2 * d"
      unfolding diff upd by simp
    finally show ?thesis .
  qed
  consider "- 179 - 2 * d \<le> - 180" | "- 180 < - 179 - 2 * d"
    by linarith
  then have "(179 < p' \<and> p' \<le> 180) \<or> (- 180 < p' \<and> p' < - 179)"
  proof cases
    case 1
    then have "angleMod (- 179 - 2 * d) = (- 179 - 2 * d) + 360 * of_int 1"
      using d by (intro AngleModDeg_canonical_unique [OF can]) simp_all
    then show ?thesis
      using 1 d by (simp add: res)
  next
    case 2
    then have "angleMod (- 179 - 2 * d) = (- 179 - 2 * d) + 360 * of_int 0"
      using d by (intro AngleModDeg_canonical_unique [OF can]) simp_all
    then show ?thesis
      using 2 d by (simp add: res)
  qed
  then show "(179 < fst (Spring_LerpAngleDegree angleMod 179 0 (- 179) springFactor dt) \<and>
              fst (Spring_LerpAngleDegree angleMod 179 0 (- 179) springFactor dt) \<le> 180) \<or>
            (- 180 < fst (Spring_LerpAngleDegree angleMod 179 0 (- 179) springFactor dt) \<and>
              fst (Spring_LerpAngleDegree angleMod 179 0 (- 179) springFactor dt) < - 179)"
    by (simp only: p'_def)
qed

theorem Spring_LerpAngleDegree_shortest_path_witness:
  "AngleModDeg_canonical float_AngleModDeg \<and> (0::real) < 1 \<and> (0::real) < 1 / 60 \<and>
   Spring_LerpAngleDegree float_AngleModDeg 350 5 10 1 (1 / 60) =
     (float_AngleModDeg (10 + fst (Spring_Update (float_AngleModDeg (350 - 10)) 5 1 (1 / 60))),
      snd (Spring_Update (float_AngleModDeg (350 - 10)) 5 1 (1 / 60))) \<and>
   ((179 < fst (Spring_LerpAngleDegree float_AngleModDeg 179 0 (- 179) 1 (1 / 60)) \<and>
     fst (Spring_LerpAngleDegree float_AngleModDeg 179 0 (- 179) 1 (1 / 60)) \<le> 180) \<or>
    (- 180 < fst (Spring_LerpAngleDegree float_AngleModDeg 179 0 (- 179) 1 (1 / 60)) \<and>
     fst (Spring_LerpAngleDegree float_AngleModDeg 179 0 (- 179) 1 (1 / 60)) < - 179))"
proof -
  have can: "AngleModDeg_canonical float_AngleModDeg"
    by (rule float_AngleModDeg_canonical)
  have k: "(0::real) < 1" and dt: "(0::real) < 1 / 60"
    by simp_all
  from can k dt Spring_LerpAngleDegree_shortest_path [OF can k dt, of 350 5 10]
  show ?thesis
    by blast
qed

section \<open>The precomputed-coefficient wrapper\<close>

text \<open>
  C2 says that \<open>Update\<close> of the wrapper \<open>Spring_Premult\<close> advances position and velocity as
  \<open>Spring_Premult_Lerp\<close> does. The method does not: from the state \<open>pos = 0\<close>, \<open>vel = 1\<close>,
  \<open>target = 0\<close>, with \<open>springFactor_dt = 1\<close> and \<open>springExp_dt = Spring_Exp 1\<close>, it stores
  the position \<open>exp (- 1) * exp (- exp (- 1))\<close> and the velocity
  \<open>(1 - exp (- 1)) * exp (- exp (- 1))\<close>, where \<open>Spring_Premult_Lerp\<close> returns the larger
  position \<open>exp (- 1)\<close> and the velocity \<open>0\<close>.
\<close>

theorem Spring_Premult__Update_is_not_Spring_Premult_Lerp:
  "Spring_Premult__Update float_AngleModDeg
     \<lparr>Spring_Premult_pos = 0, Spring_Premult_vel = 1, Spring_Premult_target = 0\<rparr>
     1 (Spring_Exp 1) =
     \<lparr>Spring_Premult_pos = exp (- 1) * exp (- exp (- 1)),
      Spring_Premult_vel = (1 - exp (- 1)) * exp (- exp (- 1)),
      Spring_Premult_target = 0\<rparr>
   \<and> Spring_Premult_Lerp 0 1 0 1 (Spring_Exp 1) = (exp (- 1), 0)
   \<and> exp (- 1) * exp (- exp (- 1)) < (exp (- 1) :: real)
   \<and> 0 < (1 - exp (- 1)) * exp (- exp (- 1 :: real))"
proof -
  define e :: real where "e = exp (- 1)"
  have e: "0 < e" "e < 1"
    by (simp_all add: e_def)
  have ee: "0 < exp (- e)" "exp (- e) < 1"
    using e by simp_all
  have small: "0 < e * exp (- e)" "e * exp (- e) < e"
    using e ee by simp_all
  have zero: "float_AngleModDeg 0 = 0"
    using float_AngleModDeg_eq [of 0 0] by simp
  have wrap: "float_AngleModDeg (e * exp (- e)) = e * exp (- e)"
    using float_AngleModDeg_eq [of "e * exp (- e)" 0] small e by simp
  have upd: "Spring_Update 0 1 1 e = (e * exp (- e), (1 - e) * exp (- e))"
    by (simp add: Spring_Update_def Spring_Exp_def Let_def algebra_simps)
  have code: "Spring_LerpAngleDegree float_AngleModDeg 0 1 0 1 e =
      (e * exp (- e), (1 - e) * exp (- e))"
    by (simp add: Spring_LerpAngleDegree_def Let_def zero upd wrap)
  have lerp: "Spring_Premult_Lerp 0 1 0 1 e = (e, 0)"
    by (simp add: Spring_Premult_Lerp_def Spring_Premult_Update_def Let_def)
  have pos: "0 < (1 - e) * exp (- e)"
    using e by simp
  show ?thesis
    using small pos
    by (simp add: Spring_Premult__Update_def Spring_Exp_def e_def [symmetric] code lerp)
qed

text \<open>
  Two more inputs. With \<open>springFactor_dt = 0\<close> and \<open>springExp_dt = Spring_Exp 0\<close> the
  free function leaves a resting spring where it is; the method wraps its position. And
  whatever the angle normalisation is, the second argument of the method is used as a
  time step, not as a decay factor.
\<close>

lemma Spring_Premult__Update_wraps:
  "Spring_Premult__Update float_AngleModDeg
     \<lparr>Spring_Premult_pos = 200, Spring_Premult_vel = 0, Spring_Premult_target = 0\<rparr>
     0 (Spring_Exp 0) =
     \<lparr>Spring_Premult_pos = - 160, Spring_Premult_vel = 0, Spring_Premult_target = 0\<rparr>
   \<and> Spring_Premult_Lerp 200 0 0 0 (Spring_Exp 0) = (200, 0)"
proof -
  have a: "float_AngleModDeg 200 = - 160"
    using float_AngleModDeg_eq [of 200 "- 1"] by simp
  have b: "float_AngleModDeg (- 160) = - 160"
    using float_AngleModDeg_eq [of "- 160" 0] by simp
  show ?thesis
    by (simp add: Spring_Premult__Update_def Spring_LerpAngleDegree_def Spring_Premult_Lerp_def
        Spring_Premult_Update_def Spring_Update_def Spring_Exp_def Let_def a b)
qed

lemma Spring_Premult__Update_second_argument:
  "Spring_Premult__GetVel (Spring_Premult__Update angleMod
     \<lparr>Spring_Premult_pos = 0, Spring_Premult_vel = 1, Spring_Premult_target = 0\<rparr> 0 2) = 1
   \<and> snd (Spring_Premult_Lerp 0 1 0 0 2) = 2"
  by (simp add: Spring_Premult__GetVel_def Spring_Premult__Update_def Spring_LerpAngleDegree_def
      Spring_Premult_Lerp_def Spring_Premult_Update_def Spring_Update_def Spring_Exp_def
      Let_def split_beta)

end
